theory Spec2Isabelle
  imports Complex_Main
begin

section \<open>Numbers\<close>

text \<open>
  The values of the JavaScript type \<open>number\<close>: the not-a-number sentinel, the finite
  values and the two infinities. Finite values are carried as reals and finite arithmetic
  is exact: rounding, overflow of a finite result to an infinity and the sign of a zero
  are not represented. A zero divisor, and a zero base of a power, is read as \<open>+0\<close>.
\<close>

datatype number = NaN | Fin real | PosInf | NegInf

text \<open>The infinity of a given sign; \<open>NaN\<close> where the sign is that of a zero.\<close>

definition signed_inf :: "real \<Rightarrow> number" where
  "signed_inf s = (if 0 < s then PosInf else if s < 0 then NegInf else NaN)"

fun num_sgn :: "number \<Rightarrow> real" where
  "num_sgn NaN = 0"
| "num_sgn (Fin a) = sgn a"
| "num_sgn PosInf = 1"
| "num_sgn NegInf = - 1"

text \<open>Unary minus.\<close>

fun num_neg :: "number \<Rightarrow> number" where
  "num_neg NaN = NaN"
| "num_neg (Fin a) = Fin (- a)"
| "num_neg PosInf = NegInf"
| "num_neg NegInf = PosInf"

text \<open>The operator \<open>+\<close> on numbers.\<close>

fun num_add :: "number \<Rightarrow> number \<Rightarrow> number" where
  "num_add NaN y = NaN"
| "num_add x NaN = NaN"
| "num_add (Fin a) (Fin b) = Fin (a + b)"
| "num_add (Fin a) y = y"
| "num_add x (Fin b) = x"
| "num_add PosInf PosInf = PosInf"
| "num_add NegInf NegInf = NegInf"
| "num_add PosInf NegInf = NaN"
| "num_add NegInf PosInf = NaN"

text \<open>The operator \<open>-\<close> on numbers: the sum with the negated right operand.\<close>

definition num_sub :: "number \<Rightarrow> number \<Rightarrow> number" where
  "num_sub x y = num_add x (num_neg y)"

text \<open>The operator \<open>*\<close> on numbers; an infinity times zero is \<open>NaN\<close>.\<close>

fun num_mul :: "number \<Rightarrow> number \<Rightarrow> number" where
  "num_mul NaN y = NaN"
| "num_mul x NaN = NaN"
| "num_mul (Fin a) (Fin b) = Fin (a * b)"
| "num_mul x y = signed_inf (num_sgn x * num_sgn y)"

text \<open>
  The operator \<open>/\<close> on numbers: \<open>0 / 0\<close> and the quotient of two infinities are
  \<open>NaN\<close>, a nonzero value over zero is an infinity, a finite value over an infinity is
  zero.
\<close>

fun num_div :: "number \<Rightarrow> number \<Rightarrow> number" where
  "num_div NaN y = NaN"
| "num_div x NaN = NaN"
| "num_div (Fin a) (Fin b) = (if b = 0 then signed_inf (sgn a) else Fin (a / b))"
| "num_div x (Fin b) = signed_inf (num_sgn x * (if b = 0 then 1 else sgn b))"
| "num_div (Fin a) y = Fin 0"
| "num_div x y = NaN"

text \<open>\<open>Math.abs\<close>.\<close>

fun Math_abs :: "number \<Rightarrow> number" where
  "Math_abs NaN = NaN"
| "Math_abs (Fin a) = Fin \<bar>a\<bar>"
| "Math_abs PosInf = PosInf"
| "Math_abs NegInf = PosInf"

text \<open>
  Strict equality \<open>===\<close> of two numbers: \<open>NaN\<close> is equal to nothing, itself included.
\<close>

definition strict_eq :: "number \<Rightarrow> number \<Rightarrow> bool" where
  "strict_eq x y = (x \<noteq> NaN \<and> y \<noteq> NaN \<and> x = y)"

text \<open>
  \<open>Math.pow\<close>, by the cases of the language standard: a zero exponent gives 1 for every
  base, \<open>NaN\<close> included; a negative finite base has a power only at an integer exponent.
\<close>

definition is_odd_integer :: "real \<Rightarrow> bool" where
  "is_odd_integer e = (e = of_int \<lfloor>e\<rfloor> \<and> odd \<lfloor>e\<rfloor>)"

fun Math_pow :: "number \<Rightarrow> number \<Rightarrow> number" where
  "Math_pow b NaN = NaN"
| "Math_pow b (Fin e) =
     (if e = 0 then Fin 1
      else case b of
        NaN \<Rightarrow> NaN
      | PosInf \<Rightarrow> (if 0 < e then PosInf else Fin 0)
      | NegInf \<Rightarrow>
          (if 0 < e then (if is_odd_integer e then NegInf else PosInf) else Fin 0)
      | Fin a \<Rightarrow>
          (if a = 0 then (if 0 < e then Fin 0 else PosInf)
           else if 0 < a then Fin (a powr e)
           else if e = of_int \<lfloor>e\<rfloor> then Fin (a powi \<lfloor>e\<rfloor>)
           else NaN))"
| "Math_pow b PosInf =
     (case b of
        NaN \<Rightarrow> NaN
      | Fin a \<Rightarrow> (if 1 < \<bar>a\<bar> then PosInf else if \<bar>a\<bar> = 1 then NaN else Fin 0)
      | PosInf \<Rightarrow> PosInf
      | NegInf \<Rightarrow> PosInf)"
| "Math_pow b NegInf =
     (case b of
        NaN \<Rightarrow> NaN
      | Fin a \<Rightarrow> (if 1 < \<bar>a\<bar> then Fin 0 else if \<bar>a\<bar> = 1 then NaN else PosInf)
      | PosInf \<Rightarrow> Fin 0
      | NegInf \<Rightarrow> Fin 0)"

section \<open>The method set\<close>

record DifferentiationMethod =
  name :: string
  formula :: string
  order :: string
  color :: string
  calculate :: "(number \<Rightarrow> number) \<Rightarrow> number \<Rightarrow> number \<Rightarrow> number"

text \<open>
  The three entries of the array \<open>methods\<close>, in its order. The order of the central
  scheme ends in a superscript two, the code unit \<open>0xB2\<close>.
\<close>

definition forward_difference :: DifferentiationMethod where
  "forward_difference =
     \<lparr>name = ''Forward Difference'',
      formula = ''(f(x+h) - f(x)) / h'',
      order = ''O(h)'',
      color = ''#3b82f6'',
      calculate = (\<lambda>f x h. num_div (num_sub (f (num_add x h)) (f x)) h)\<rparr>"

definition backward_difference :: DifferentiationMethod where
  "backward_difference =
     \<lparr>name = ''Backward Difference'',
      formula = ''(f(x) - f(x-h)) / h'',
      order = ''O(h)'',
      color = ''#ef4444'',
      calculate = (\<lambda>f x h. num_div (num_sub (f x) (f (num_sub x h))) h)\<rparr>"

definition central_difference :: DifferentiationMethod where
  "central_difference =
     \<lparr>name = ''Central Difference'',
      formula = ''(f(x+h) - f(x-h)) / (2h)'',
      order = ''O(h'' @ [CHR 0xB2] @ '')'',
      color = ''#10b981'',
      calculate = (\<lambda>f x h.
        num_div (num_sub (f (num_add x h)) (f (num_sub x h))) (num_mul (Fin 2) h))\<rparr>"

definition methods :: "DifferentiationMethod list" where
  "methods = [forward_difference, backward_difference, central_difference]"

section \<open>The expression library\<close>

text \<open>
  The expression library \<open>mathjs\<close> is outside the program; it is a parameter. Each of
  its four calls used by the program either throws (\<open>Inl\<close>, with the message) or returns
  (\<open>Inr\<close>): \<open>math.parse\<close>, \<open>math.derivative\<close> with respect to \<open>x\<close>, \<open>compile\<close> of
  an expression node, and \<open>evaluate\<close> of compiled code in the scope that binds \<open>x\<close>.
  Evaluation is taken to return a number.
\<close>

record ('node, 'code) mathjs =
  parse :: "string \<Rightarrow> string + 'node"
  derivative :: "'node \<Rightarrow> string + 'node"
  compile :: "'node \<Rightarrow> string + 'code"
  evaluate :: "'code \<Rightarrow> number \<Rightarrow> string + number"

section \<open>The component state\<close>

text \<open>
  One row of the results table, as pushed by \<open>calculateDerivatives\<close>. The fields
  \<open>method\<close>, \<open>formula\<close>, \<open>order\<close> and \<open>color\<close> of the row carry the prefix \<open>result_\<close>.
\<close>

record DifferentiationResult =
  result_method :: string
  numerical :: number
  analytical :: "number option"
  absoluteError :: "number option"
  relativeError :: "number option"
  result_formula :: string
  result_order :: string
  result_color :: string

text \<open>One trace of the error plot, as pushed by \<open>generateErrorData\<close>.\<close>

record trace =
  trace_x :: "number list"
  trace_y :: "number list"
  trace_type :: string
  trace_mode :: string
  trace_name :: string
  line_color :: string
  xaxis :: string
  yaxis :: string

text \<open>
  The state of the component that the calculations read and write. The plot of the
  function and the two display toggles are not part of the calculations below.
\<close>

record state =
  functionInput :: string
  evaluationPoint :: number
  stepSize :: number
  selectedMethods :: "string list"
  results :: "DifferentiationResult list"
  errorData :: "trace list"
  functionError :: string

section \<open>Compiling an expression\<close>

text \<open>
  The closure both compilers return: it evaluates the compiled code at \<open>x\<close> and turns an
  exception of the evaluation into \<open>NaN\<close>.
\<close>

definition guarded_evaluate :: "('node, 'code) mathjs \<Rightarrow> 'code \<Rightarrow> number \<Rightarrow> number" where
  "guarded_evaluate lib compiled x =
     (case evaluate lib compiled x of Inl e \<Rightarrow> NaN | Inr v \<Rightarrow> v)"

text \<open>
  \<open>parseFunction\<close>: an exception of parsing or compiling sets the error message and
  gives \<open>null\<close>.
\<close>

definition parseFunction ::
  "('node, 'code) mathjs \<Rightarrow> string \<Rightarrow> state \<Rightarrow> (number \<Rightarrow> number) option \<times> state" where
  "parseFunction lib input st =
     (case parse lib input of
        Inl e \<Rightarrow> (None, st\<lparr>functionError := ''Invalid function syntax''\<rparr>)
      | Inr expr \<Rightarrow>
          (case compile lib expr of
             Inl e \<Rightarrow> (None, st\<lparr>functionError := ''Invalid function syntax''\<rparr>)
           | Inr compiled \<Rightarrow> (Some (guarded_evaluate lib compiled), st)))"

text \<open>
  \<open>getAnalyticalDerivative\<close>: an exception of parsing, differentiating or compiling gives
  \<open>null\<close> and sets nothing.
\<close>

definition getAnalyticalDerivative ::
  "('node, 'code) mathjs \<Rightarrow> string \<Rightarrow> (number \<Rightarrow> number) option" where
  "getAnalyticalDerivative lib input =
     (case parse lib input of
        Inl e \<Rightarrow> None
      | Inr expr \<Rightarrow>
          (case derivative lib expr of
             Inl e \<Rightarrow> None
           | Inr d \<Rightarrow>
               (case compile lib d of
                  Inl e \<Rightarrow> None
                | Inr compiled \<Rightarrow> Some (guarded_evaluate lib compiled))))"

section \<open>Numerical derivatives\<close>

text \<open>
  The body of the \<open>forEach\<close> of \<open>calculateDerivatives\<close> for one method name: a name that
  is not in \<open>methods\<close> leaves \<open>newResults\<close> as it is, any other pushes one row.
\<close>

definition derivative_row ::
  "(number \<Rightarrow> number) \<Rightarrow> (number \<Rightarrow> number) option \<Rightarrow> number \<Rightarrow> number \<Rightarrow>
   string \<Rightarrow> DifferentiationMethod \<Rightarrow> DifferentiationResult" where
  "derivative_row func analyticalDerivative x h methodName m =
     (let numericalResult = calculate m func x h;
          analyticalResult =
            (case analyticalDerivative of Some d \<Rightarrow> Some (d x) | None \<Rightarrow> None);
          error =
            (case analyticalResult of
               Some a \<Rightarrow> Some (Math_abs (num_sub numericalResult a))
             | None \<Rightarrow> None);
          relError =
            (case analyticalResult of
               Some a \<Rightarrow>
                 (if \<not> strict_eq a (Fin 0)
                  then Some (num_mul (Math_abs (num_div (num_sub numericalResult a) a))
                               (Fin 100))
                  else None)
             | None \<Rightarrow> None)
      in \<lparr>result_method = methodName,
          numerical = numericalResult,
          analytical = analyticalResult,
          absoluteError = error,
          relativeError = relError,
          result_formula = formula m,
          result_order = order m,
          result_color = color m\<rparr>)"

fun derivative_rows ::
  "(number \<Rightarrow> number) \<Rightarrow> (number \<Rightarrow> number) option \<Rightarrow> number \<Rightarrow> number \<Rightarrow>
   string list \<Rightarrow> DifferentiationResult list \<Rightarrow> DifferentiationResult list" where
  "derivative_rows func analyticalDerivative x h [] newResults = newResults"
| "derivative_rows func analyticalDerivative x h (methodName # rest) newResults =
     (case find (\<lambda>m. name m = methodName) methods of
        None \<Rightarrow> derivative_rows func analyticalDerivative x h rest newResults
      | Some m \<Rightarrow>
          derivative_rows func analyticalDerivative x h rest
            (newResults @ [derivative_row func analyticalDerivative x h methodName m]))"

text \<open>
  \<open>calculateDerivatives\<close>: both compilers run first; without a compiled function it
  returns at once, otherwise it clears the error message and stores the new rows.
\<close>

definition calculateDerivatives :: "('node, 'code) mathjs \<Rightarrow> state \<Rightarrow> state" where
  "calculateDerivatives lib st =
     (case parseFunction lib (functionInput st) st of
        (None, st1) \<Rightarrow> st1
      | (Some func, st1) \<Rightarrow>
          (let analyticalDerivative = getAnalyticalDerivative lib (functionInput st);
               st2 = st1\<lparr>functionError := ''''\<rparr>;
               h = stepSize st;
               x = evaluationPoint st
           in st2\<lparr>results :=
                    derivative_rows func analyticalDerivative x h (selectedMethods st) []\<rparr>))"

section \<open>Error analysis\<close>

text \<open>The twenty step sizes of the sweep.\<close>

definition stepSizes :: "number list" where
  "stepSizes =
     map (\<lambda>i. Math_pow (Fin 10) (num_add (Fin (- 4)) (num_mul (Fin (real i)) (Fin 0.2))))
       [0..<20]"

definition error_trace ::
  "(number \<Rightarrow> number) \<Rightarrow> (number \<Rightarrow> number) \<Rightarrow> number \<Rightarrow> string \<Rightarrow>
   DifferentiationMethod \<Rightarrow> trace" where
  "error_trace func analyticalDerivative x0 methodName m =
     (let errors =
            map (\<lambda>h.
                  let numerical = calculate m func x0 h;
                      analytical = analyticalDerivative x0
                  in Math_abs (num_sub numerical analytical))
              stepSizes
      in \<lparr>trace_x = stepSizes,
          trace_y = errors,
          trace_type = ''scatter'',
          trace_mode = ''lines+markers'',
          trace_name = methodName @ '' Error'',
          line_color = color m,
          xaxis = ''x'',
          yaxis = ''y''\<rparr>)"

fun error_traces ::
  "(number \<Rightarrow> number) \<Rightarrow> (number \<Rightarrow> number) \<Rightarrow> number \<Rightarrow> string list \<Rightarrow>
   trace list \<Rightarrow> trace list" where
  "error_traces func analyticalDerivative x0 [] traces = traces"
| "error_traces func analyticalDerivative x0 (methodName # rest) traces =
     (case find (\<lambda>m. name m = methodName) methods of
        None \<Rightarrow> error_traces func analyticalDerivative x0 rest traces
      | Some m \<Rightarrow>
          error_traces func analyticalDerivative x0 rest
            (traces @ [error_trace func analyticalDerivative x0 methodName m]))"

text \<open>
  \<open>generateErrorData\<close>: without a compiled function or without a compiled derivative it
  returns at once and stores nothing.
\<close>

definition generateErrorData :: "('node, 'code) mathjs \<Rightarrow> state \<Rightarrow> state" where
  "generateErrorData lib st =
     (case parseFunction lib (functionInput st) st of
        (None, st1) \<Rightarrow> st1
      | (Some func, st1) \<Rightarrow>
          (case getAnalyticalDerivative lib (functionInput st) of
             None \<Rightarrow> st1
           | Some analyticalDerivative \<Rightarrow>
               st1\<lparr>errorData :=
                     error_traces func analyticalDerivative (evaluationPoint st)
                       (selectedMethods st) []\<rparr>))"

section \<open>A sample library\<close>

text \<open>
  A small instance of the library interface, on which the statements below are evaluated.
  Expression nodes and compiled code are both the text of the expression. It parses five
  expressions, differentiates two of them, and evaluates three; the symbol \<open>y\<close> is not
  bound in the scope, so evaluating an expression that mentions it throws.
\<close>

definition sample_library :: "(string, string) mathjs" where
  "sample_library =
     \<lparr>parse = (\<lambda>s. if s \<in> set [''x^2'', ''2 * x'', ''floor(x)'', ''x * y'', ''y'']
                     then Inr s else Inl ''SyntaxError''),
      derivative = (\<lambda>n. if n = ''x^2'' then Inr ''2 * x''
                          else if n = ''x * y'' then Inr ''y''
                          else Inl ''not supported by derivative''),
      compile = Inr,
      evaluate = (\<lambda>c x. if c = ''x^2'' then Inr (num_mul x x)
                          else if c = ''2 * x'' then Inr (num_mul (Fin 2) x)
                          else if c = ''floor(x)''
                            then Inr (case x of Fin a \<Rightarrow> Fin (of_int \<lfloor>a\<rfloor>) | _ \<Rightarrow> x)
                          else Inl ''Undefined symbol y'')\<rparr>"

text \<open>A state with the given inputs and nothing computed yet.\<close>

definition sample_state :: "string \<Rightarrow> number \<Rightarrow> number \<Rightarrow> string list \<Rightarrow> state" where
  "sample_state input x h names =
     \<lparr>functionInput = input, evaluationPoint = x, stepSize = h, selectedMethods = names,
      results = [], errorData = [], functionError = ''''\<rparr>"

text \<open>
  The state after the central difference of \<open>x^2\<close> has been computed at 1 with step 0.1
  and the expression has then been edited to \<open>x^^2\<close>, which does not parse.
\<close>

definition stale_state :: state where
  "stale_state =
     (calculateDerivatives sample_library
        (sample_state ''x^2'' (Fin 1) (Fin 0.1) [''Central Difference'']))
     \<lparr>functionInput := ''x^^2''\<rparr>"

section \<open>Facts about numbers\<close>

lemma num_add_NaN_right [simp]: "num_add x NaN = NaN"
  by (cases x) simp_all

lemma num_sub_NaN_right [simp]: "num_sub x NaN = NaN"
  by (simp add: num_sub_def)

lemma num_sub_NaN_left [simp]: "num_sub NaN y = NaN"
  by (simp add: num_sub_def)

lemma num_mul_NaN_right [simp]: "num_mul x NaN = NaN"
  by (cases x) simp_all

lemma num_div_NaN_right [simp]: "num_div x NaN = NaN"
  by (cases x) simp_all

lemma num_add_zero: "num_add x (Fin 0) = x"
  by (cases x) simp_all

lemma num_sub_zero: "num_sub x (Fin 0) = x"
  by (cases x) (simp_all add: num_sub_def)

lemma signed_inf_numerals [simp]:
  "signed_inf 1 = PosInf" "signed_inf (- 1) = NegInf" "signed_inf 0 = NaN"
  by (simp_all add: signed_inf_def)

lemma Math_abs_signed_inf:
  "Math_abs (signed_inf s) = (if s = 0 then NaN else PosInf)"
  by (simp add: signed_inf_def)

lemma strict_eq_zero: "strict_eq a (Fin 0) \<longleftrightarrow> a = Fin 0"
  by (auto simp: strict_eq_def)

lemma Math_abs_num_div:
  "Math_abs (num_div u v) = num_div (Math_abs u) (Math_abs v)"
  by (cases u; cases v) (auto simp: Math_abs_signed_inf sgn_if)

lemma powr_examples:
  "(10::real) powr (- 4) = 1 / 10000" "(10::real) powr (- 3) = 1 / 1000"
  "(10::real) powr (- 2) = 1 / 100"
  by (simp_all add: powr_minus powr_numeral divide_simps)

section \<open>Facts about the method set\<close>

lemma find_methods_cases:
  "find (\<lambda>m. name m = n) methods =
     (if n = ''Forward Difference'' then Some forward_difference
      else if n = ''Backward Difference'' then Some backward_difference
      else if n = ''Central Difference'' then Some central_difference
      else None)"
  by (simp add: methods_def forward_difference_def backward_difference_def
        central_difference_def)

lemma find_methods_None:
  "find (\<lambda>m. name m = n) methods = None \<longleftrightarrow> n \<notin> name ` set methods"
  by (auto simp: find_None_iff)

lemma known_names:
  "n \<in> name ` set methods \<longleftrightarrow>
     n = ''Forward Difference'' \<or> n = ''Backward Difference'' \<or> n = ''Central Difference''"
  by (auto simp: methods_def forward_difference_def backward_difference_def
        central_difference_def)

lemma calculate_simps:
  "calculate forward_difference f x h = num_div (num_sub (f (num_add x h)) (f x)) h"
  "calculate backward_difference f x h = num_div (num_sub (f x) (f (num_sub x h))) h"
  "calculate central_difference f x h =
     num_div (num_sub (f (num_add x h)) (f (num_sub x h))) (num_mul (Fin 2) h)"
  by (simp_all add: forward_difference_def backward_difference_def central_difference_def)

section \<open>Facts about the two loops\<close>

lemma derivative_rows_append:
  "derivative_rows func ad x h names acc =
     acc @ map (\<lambda>n. derivative_row func ad x h n (the (find (\<lambda>m. name m = n) methods)))
             (filter (\<lambda>n. n \<in> name ` set methods) names)"
proof (induction names arbitrary: acc)
  case Nil
  then show ?case by simp
next
  case (Cons n names)
  show ?case
  proof (cases "find (\<lambda>m. name m = n) methods")
    case None
    then have "n \<notin> name ` set methods" by (simp add: find_methods_None)
    with None Cons show ?thesis by simp
  next
    case (Some m)
    then have "n \<in> name ` set methods"
      using find_methods_None [of n] by simp
    with Some Cons show ?thesis by simp
  qed
qed

lemma error_traces_append:
  "error_traces func ad x0 names acc =
     acc @ map (\<lambda>n. error_trace func ad x0 n (the (find (\<lambda>m. name m = n) methods)))
             (filter (\<lambda>n. n \<in> name ` set methods) names)"
proof (induction names arbitrary: acc)
  case Nil
  then show ?case by simp
next
  case (Cons n names)
  show ?case
  proof (cases "find (\<lambda>m. name m = n) methods")
    case None
    then have "n \<notin> name ` set methods" by (simp add: find_methods_None)
    with None Cons show ?thesis by simp
  next
    case (Some m)
    then have "n \<in> name ` set methods"
      using find_methods_None [of n] by simp
    with Some Cons show ?thesis by simp
  qed
qed

lemma zip_map_same: "zip xs (map g xs) = map (\<lambda>x. (x, g x)) xs"
  by (induction xs) simp_all

lemma error_trace_pairs:
  "zip (trace_x (error_trace func ad x0 n m)) (trace_y (error_trace func ad x0 n m)) =
     map (\<lambda>h. (h, Math_abs (num_sub (calculate m func x0 h) (ad x0)))) stepSizes"
  by (simp add: error_trace_def Let_def zip_map_same)

lemma length_stepSizes: "length stepSizes = 20"
  by (simp add: stepSizes_def)

lemma stepSizes_eq:
  "stepSizes = map (\<lambda>i. Fin (10 powr (- 4 + real i * 0.2))) [0..<20]"
  unfolding stepSizes_def by (rule map_cong) simp_all

section \<open>Facts about compiling\<close>

lemma parseFunction_fails:
  assumes "parse lib input = Inl e \<or> (parse lib input = Inr expr \<and> compile lib expr = Inl e)"
  shows "parseFunction lib input st = (None, st\<lparr>functionError := ''Invalid function syntax''\<rparr>)"
  using assms by (auto simp: parseFunction_def)

lemma parseFunction_succeeds:
  assumes "parse lib input = Inr expr" and "compile lib expr = Inr compiled"
  shows "parseFunction lib input st = (Some (guarded_evaluate lib compiled), st)"
  using assms by (simp add: parseFunction_def)

lemma results_calculateDerivatives:
  assumes "parseFunction lib (functionInput st) st = (Some func, st1)"
  shows "results (calculateDerivatives lib st) =
           map (\<lambda>n. derivative_row func (getAnalyticalDerivative lib (functionInput st))
                      (evaluationPoint st) (stepSize st) n
                      (the (find (\<lambda>m. name m = n) methods)))
             (filter (\<lambda>n. n \<in> name ` set methods) (selectedMethods st))"
  using assms by (simp add: calculateDerivatives_def derivative_rows_append)

lemma errorData_generateErrorData:
  assumes "parseFunction lib (functionInput st) st = (Some func, st1)"
    and "getAnalyticalDerivative lib (functionInput st) = Some ad"
  shows "errorData (generateErrorData lib st) =
           map (\<lambda>n. error_trace func ad (evaluationPoint st) n
                      (the (find (\<lambda>m. name m = n) methods)))
             (filter (\<lambda>n. n \<in> name ` set methods) (selectedMethods st))"
  using assms by (simp add: generateErrorData_def error_traces_append)

section \<open>Facts about the sample library\<close>

lemma sample_state_fields:
  "functionInput (sample_state input x h names) = input"
  "evaluationPoint (sample_state input x h names) = x"
  "stepSize (sample_state input x h names) = h"
  "selectedMethods (sample_state input x h names) = names"
  "results (sample_state input x h names) = []"
  "errorData (sample_state input x h names) = []"
  by (simp_all add: sample_state_def)

lemma sample_parse:
  "parse sample_library ''x^2'' = Inr ''x^2''"
  "parse sample_library ''floor(x)'' = Inr ''floor(x)''"
  "parse sample_library ''x * y'' = Inr ''x * y''"
  "parse sample_library ''x^^2'' = Inl ''SyntaxError''"
  by (simp_all add: sample_library_def)

lemma sample_derivative:
  "derivative sample_library ''x^2'' = Inr ''2 * x''"
  "derivative sample_library ''floor(x)'' = Inl ''not supported by derivative''"
  "derivative sample_library ''x * y'' = Inr ''y''"
  by (simp_all add: sample_library_def)

lemma sample_compile: "compile sample_library n = Inr n"
  by (simp add: sample_library_def)

lemma sample_evaluate:
  "guarded_evaluate sample_library ''x^2'' x = num_mul x x"
  "guarded_evaluate sample_library ''2 * x'' x = num_mul (Fin 2) x"
  "guarded_evaluate sample_library ''floor(x)'' (Fin a) = Fin (of_int \<lfloor>a\<rfloor>)"
  "guarded_evaluate sample_library ''x * y'' x = NaN"
  "guarded_evaluate sample_library ''y'' x = NaN"
  by (simp_all add: sample_library_def guarded_evaluate_def)

lemma sample_parseFunction:
  "parseFunction sample_library ''x^2'' st = (Some (guarded_evaluate sample_library ''x^2''), st)"
  "parseFunction sample_library ''floor(x)'' st =
     (Some (guarded_evaluate sample_library ''floor(x)''), st)"
  "parseFunction sample_library ''x * y'' st =
     (Some (guarded_evaluate sample_library ''x * y''), st)"
  by (simp_all add: parseFunction_def sample_parse sample_compile)

lemma sample_getAnalyticalDerivative:
  "getAnalyticalDerivative sample_library ''x^2'' = Some (guarded_evaluate sample_library ''2 * x'')"
  "getAnalyticalDerivative sample_library ''floor(x)'' = None"
  "getAnalyticalDerivative sample_library ''x * y'' = Some (guarded_evaluate sample_library ''y'')"
  by (simp_all add: getAnalyticalDerivative_def sample_parse sample_derivative sample_compile)

lemma stale_state_results:
  "map result_method (results stale_state) = [''Central Difference'']"
  "map numerical (results stale_state) = [Fin 2]"
  "functionInput stale_state = ''x^^2''"
proof -
  let ?st = "sample_state ''x^2'' (Fin 1) (Fin 0.1) [''Central Difference'']"
  have p: "parseFunction sample_library (functionInput ?st) ?st =
             (Some (guarded_evaluate sample_library ''x^2''), ?st)"
    by (simp add: sample_state_fields sample_parseFunction)
  show "map result_method (results stale_state) = [''Central Difference'']"
    by (simp add: stale_state_def results_calculateDerivatives [OF p] sample_state_fields
          known_names derivative_row_def Let_def)
  show "map numerical (results stale_state) = [Fin 2]"
    by (simp add: stale_state_def results_calculateDerivatives [OF p] sample_state_fields
          known_names derivative_row_def Let_def find_methods_cases calculate_simps
          sample_evaluate num_sub_def)
  show "functionInput stale_state = ''x^^2''"
    by (simp add: stale_state_def)
qed

section \<open>The estimators\<close>

text \<open>
  C1: for every function \<open>f\<close>, point \<open>x\<close> and step \<open>h\<close>, the method set holds, in this
  order, Forward Difference computing \<open>(f(x+h) - f(x)) / h\<close> with declared order O(h),
  Backward Difference computing \<open>(f(x) - f(x-h)) / h\<close> with declared order O(h), and
  Central Difference computing \<open>(f(x+h) - f(x-h)) / (2h)\<close> with declared order O(h) squared.
\<close>

theorem methods_compute_formulas:
  "map (\<lambda>m. (name m, calculate m f x h, order m)) methods =
     [(''Forward Difference'',
       num_div (num_sub (f (num_add x h)) (f x)) h,
       ''O(h)''),
      (''Backward Difference'',
       num_div (num_sub (f x) (f (num_sub x h))) h,
       ''O(h)''),
      (''Central Difference'',
       num_div (num_sub (f (num_add x h)) (f (num_sub x h))) (num_mul (Fin 2) h),
       ''O(h'' @ [CHR 0xB2] @ '')'')]"
  by (simp add: methods_def forward_difference_def backward_difference_def
        central_difference_def)

text \<open>
  C9: where the three samples \<open>f(x+h)\<close>, \<open>f(x)\<close> and \<open>f(x-h)\<close> are finite, so that the
  estimators are expressions of exact real arithmetic, the central difference is the
  arithmetic mean of the forward and the backward difference, for every point and step.
\<close>

theorem central_is_mean:
  assumes "f (num_add x h) = Fin a" and "f x = Fin b" and "f (num_sub x h) = Fin c"
  shows "calculate central_difference f x h =
           num_div (num_add (calculate forward_difference f x h)
                            (calculate backward_difference f x h)) (Fin 2)"
proof (cases h)
  case NaN
  with assms show ?thesis
    by (simp add: central_difference_def forward_difference_def backward_difference_def)
next
  case (Fin hr)
  show ?thesis
  proof (cases "hr = 0")
    case True
    with Fin assms have "a = b" and "c = b"
      by (simp_all add: num_add_zero num_sub_zero)
    with Fin True assms show ?thesis
      by (simp add: central_difference_def forward_difference_def
            backward_difference_def num_sub_def signed_inf_def)
  next
    case False
    with Fin assms show ?thesis
      by (simp add: central_difference_def forward_difference_def
            backward_difference_def num_sub_def field_simps)
  qed
next
  case PosInf
  with assms show ?thesis
    by (simp add: central_difference_def forward_difference_def
          backward_difference_def num_sub_def signed_inf_def)
next
  case NegInf
  with assms show ?thesis
    by (simp add: central_difference_def forward_difference_def
          backward_difference_def num_sub_def signed_inf_def)
qed

text \<open>The mean at \<open>x^2\<close>, point 1, step 0.1: the central difference is 2.\<close>

theorem central_is_mean_witness:
  "guarded_evaluate sample_library ''x^2'' (num_add (Fin 1) (Fin 0.1)) = Fin 1.21
   \<and> guarded_evaluate sample_library ''x^2'' (Fin 1) = Fin 1
   \<and> guarded_evaluate sample_library ''x^2'' (num_sub (Fin 1) (Fin 0.1)) = Fin 0.81
   \<and> calculate central_difference (guarded_evaluate sample_library ''x^2'') (Fin 1) (Fin 0.1) =
       num_div (num_add
         (calculate forward_difference (guarded_evaluate sample_library ''x^2'') (Fin 1) (Fin 0.1))
         (calculate backward_difference (guarded_evaluate sample_library ''x^2'') (Fin 1) (Fin 0.1)))
         (Fin 2)
   \<and> calculate central_difference (guarded_evaluate sample_library ''x^2'') (Fin 1) (Fin 0.1) =
       Fin 2"
proof -
  let ?f = "guarded_evaluate sample_library ''x^2''"
  have a: "?f (num_add (Fin 1) (Fin 0.1)) = Fin 1.21"
    by (simp add: sample_evaluate)
  have b: "?f (Fin 1) = Fin 1"
    by (simp add: sample_evaluate)
  have c: "?f (num_sub (Fin 1) (Fin 0.1)) = Fin 0.81"
    by (simp add: sample_evaluate num_sub_def)
  have v: "calculate central_difference ?f (Fin 1) (Fin 0.1) = Fin 2"
    by (simp add: calculate_simps sample_evaluate num_sub_def)
  from central_is_mean [OF a b c] a b c v show ?thesis
    by simp
qed

section \<open>The orchestrator\<close>

text \<open>
  C2: when the expression compiles, the reported rows are, for the selected methods of the
  method set in the order of the selection, the method's estimate at the evaluation point
  and step, the analytical derivative at the evaluation point if there is one, and as
  relative error \<open>|numerical - analytical| / |analytical| * 100\<close> when the analytical
  value exists and is not zero, and unavailable when there is no analytical value or it
  is exactly zero. The same rule holds of every row in terms of its own fields.
\<close>

theorem relative_error_rule:
  assumes "parseFunction lib (functionInput st) st = (Some func, st1)"
  shows "map (\<lambda>r. (result_method r, numerical r, analytical r, relativeError r))
           (results (calculateDerivatives lib st)) =
         map (\<lambda>n. (n,
                    calculate (the (find (\<lambda>m. name m = n) methods)) func
                      (evaluationPoint st) (stepSize st),
                    map_option (\<lambda>d. d (evaluationPoint st))
                      (getAnalyticalDerivative lib (functionInput st)),
                    (case getAnalyticalDerivative lib (functionInput st) of
                       None \<Rightarrow> None
                     | Some d \<Rightarrow>
                         if d (evaluationPoint st) = Fin 0 then None
                         else Some (num_mul
                                (num_div
                                   (Math_abs (num_sub
                                      (calculate (the (find (\<lambda>m. name m = n) methods)) func
                                         (evaluationPoint st) (stepSize st))
                                      (d (evaluationPoint st))))
                                   (Math_abs (d (evaluationPoint st))))
                                (Fin 100)))))
           (filter (\<lambda>n. n \<in> name ` set methods) (selectedMethods st))
         \<and> (\<forall>r \<in> set (results (calculateDerivatives lib st)).
           analytical r =
             map_option (\<lambda>d. d (evaluationPoint st))
               (getAnalyticalDerivative lib (functionInput st))
           \<and> relativeError r =
             (case analytical r of
                None \<Rightarrow> None
              | Some a \<Rightarrow>
                  if a = Fin 0 then None
                  else Some (num_mul (num_div (Math_abs (num_sub (numerical r) a))
                                        (Math_abs a)) (Fin 100))))"
proof (rule conjI)
  show "map (\<lambda>r. (result_method r, numerical r, analytical r, relativeError r))
           (results (calculateDerivatives lib st)) =
         map (\<lambda>n. (n,
                    calculate (the (find (\<lambda>m. name m = n) methods)) func
                      (evaluationPoint st) (stepSize st),
                    map_option (\<lambda>d. d (evaluationPoint st))
                      (getAnalyticalDerivative lib (functionInput st)),
                    (case getAnalyticalDerivative lib (functionInput st) of
                       None \<Rightarrow> None
                     | Some d \<Rightarrow>
                         if d (evaluationPoint st) = Fin 0 then None
                         else Some (num_mul
                                (num_div
                                   (Math_abs (num_sub
                                      (calculate (the (find (\<lambda>m. name m = n) methods)) func
                                         (evaluationPoint st) (stepSize st))
                                      (d (evaluationPoint st))))
                                   (Math_abs (d (evaluationPoint st))))
                                (Fin 100)))))
           (filter (\<lambda>n. n \<in> name ` set methods) (selectedMethods st))"
    by (simp add: results_calculateDerivatives [OF assms] derivative_row_def Let_def comp_def
          strict_eq_zero Math_abs_num_div split: option.splits)
next
  show "\<forall>r \<in> set (results (calculateDerivatives lib st)).
           analytical r =
             map_option (\<lambda>d. d (evaluationPoint st))
               (getAnalyticalDerivative lib (functionInput st))
           \<and> relativeError r =
             (case analytical r of
                None \<Rightarrow> None
              | Some a \<Rightarrow>
                  if a = Fin 0 then None
                  else Some (num_mul (num_div (Math_abs (num_sub (numerical r) a))
                                        (Math_abs a)) (Fin 100)))"
    by (auto simp: results_calculateDerivatives [OF assms] derivative_row_def Let_def
          strict_eq_zero Math_abs_num_div split: option.splits)
qed

text \<open>
  At \<open>x^2\<close> and the point 0 the derivative is exactly zero and the relative error of the
  forward difference is unavailable. At the point 1 with step 0.5 the forward and the
  backward difference are 2.5 and 1.5 against the derivative 2: a relative error of 25
  percent each.
\<close>

theorem relative_error_rule_witness:
  "parseFunction sample_library
     (functionInput (sample_state ''x^2'' (Fin 0) (Fin 0.1) [''Forward Difference'']))
     (sample_state ''x^2'' (Fin 0) (Fin 0.1) [''Forward Difference'']) =
     (Some (guarded_evaluate sample_library ''x^2''),
      sample_state ''x^2'' (Fin 0) (Fin 0.1) [''Forward Difference''])
   \<and> map (\<lambda>r. (result_method r, numerical r, analytical r, relativeError r))
       (results (calculateDerivatives sample_library
          (sample_state ''x^2'' (Fin 0) (Fin 0.1) [''Forward Difference'']))) =
       [(''Forward Difference'', Fin (1 / 10), Some (Fin 0), None)]
   \<and> parseFunction sample_library
     (functionInput (sample_state ''x^2'' (Fin 1) (Fin 0.5)
        [''Forward Difference'', ''Backward Difference'']))
     (sample_state ''x^2'' (Fin 1) (Fin 0.5) [''Forward Difference'', ''Backward Difference'']) =
     (Some (guarded_evaluate sample_library ''x^2''),
      sample_state ''x^2'' (Fin 1) (Fin 0.5) [''Forward Difference'', ''Backward Difference''])
   \<and> map (\<lambda>r. (result_method r, numerical r, analytical r, relativeError r))
       (results (calculateDerivatives sample_library
          (sample_state ''x^2'' (Fin 1) (Fin 0.5)
             [''Forward Difference'', ''Backward Difference'']))) =
       [(''Forward Difference'', Fin (5 / 2), Some (Fin 2), Some (Fin 25)),
        (''Backward Difference'', Fin (3 / 2), Some (Fin 2), Some (Fin 25))]"
proof -
  let ?s0 = "sample_state ''x^2'' (Fin 0) (Fin 0.1) [''Forward Difference'']"
  let ?s1 = "sample_state ''x^2'' (Fin 1) (Fin 0.5)
               [''Forward Difference'', ''Backward Difference'']"
  have p0: "parseFunction sample_library (functionInput ?s0) ?s0 =
              (Some (guarded_evaluate sample_library ''x^2''), ?s0)"
    by (simp add: sample_state_fields sample_parseFunction)
  have p1: "parseFunction sample_library (functionInput ?s1) ?s1 =
              (Some (guarded_evaluate sample_library ''x^2''), ?s1)"
    by (simp add: sample_state_fields sample_parseFunction)
  have r0: "map (\<lambda>r. (result_method r, numerical r, analytical r, relativeError r))
              (results (calculateDerivatives sample_library ?s0)) =
            [(''Forward Difference'', Fin (1 / 10), Some (Fin 0), None)]"
    using relative_error_rule [OF p0, THEN conjunct1]
    by (simp add: sample_state_fields sample_getAnalyticalDerivative sample_evaluate
          known_names find_methods_cases calculate_simps num_sub_def)
  have r1: "map (\<lambda>r. (result_method r, numerical r, analytical r, relativeError r))
              (results (calculateDerivatives sample_library ?s1)) =
            [(''Forward Difference'', Fin (5 / 2), Some (Fin 2), Some (Fin 25)),
             (''Backward Difference'', Fin (3 / 2), Some (Fin 2), Some (Fin 25))]"
    using relative_error_rule [OF p1, THEN conjunct1]
    by (simp add: sample_state_fields sample_getAnalyticalDerivative sample_evaluate
          known_names find_methods_cases calculate_simps num_sub_def)
  from p0 r0 p1 r1 show ?thesis
    by simp
qed

text \<open>
  C3, as the program has it: when parsing or compiling the expression throws, the
  orchestrator produces no row and sets the error message; the rows computed before stay
  in the state as they were.
\<close>

theorem parse_failure_leaves_results:
  assumes "parse lib (functionInput st) = Inl e
           \<or> (parse lib (functionInput st) = Inr expr \<and> compile lib expr = Inl e)"
  shows "calculateDerivatives lib st = st\<lparr>functionError := ''Invalid function syntax''\<rparr>
         \<and> functionError (calculateDerivatives lib st) = ''Invalid function syntax''
         \<and> results (calculateDerivatives lib st) = results st"
  by (simp add: calculateDerivatives_def parseFunction_fails [OF assms])

text \<open>The edited expression \<open>x^^2\<close>: the message is set, the earlier row stays.\<close>

theorem parse_failure_leaves_results_witness:
  "parse sample_library (functionInput stale_state) = Inl ''SyntaxError''
   \<and> functionError (calculateDerivatives sample_library stale_state) =
       ''Invalid function syntax''
   \<and> map result_method (results (calculateDerivatives sample_library stale_state)) =
       [''Central Difference'']"
proof -
  have f: "parse sample_library (functionInput stale_state) = Inl ''SyntaxError''"
    by (simp add: stale_state_results sample_parse)
  from f have "parse sample_library (functionInput stale_state) = Inl ''SyntaxError''
      \<or> (parse sample_library (functionInput stale_state) = Inr undefined
           \<and> compile sample_library undefined = Inl ''SyntaxError'')"
    by simp
  from parse_failure_leaves_results [OF this] f show ?thesis
    by (simp add: stale_state_results)
qed

text \<open>
  C3 as stated asks that a failed compilation wipes the earlier rows. On the state with
  one earlier row and the expression \<open>x^^2\<close>, parsing throws and the row is still there.
\<close>

theorem parse_failure_wipes_results_counterexample:
  "parse sample_library (functionInput stale_state) = Inl ''SyntaxError''
   \<and> results stale_state \<noteq> []
   \<and> results (calculateDerivatives sample_library stale_state) = results stale_state
   \<and> results (calculateDerivatives sample_library stale_state) \<noteq> []"
proof -
  have f: "parse sample_library (functionInput stale_state) = Inl ''SyntaxError''"
    by (simp add: stale_state_results sample_parse)
  have n: "results stale_state \<noteq> []"
    using stale_state_results(1) by auto
  have "parseFunction sample_library (functionInput stale_state) stale_state =
          (None, stale_state\<lparr>functionError := ''Invalid function syntax''\<rparr>)"
    using f by (simp add: parseFunction_def)
  then have "results (calculateDerivatives sample_library stale_state) = results stale_state"
    by (simp add: calculateDerivatives_def)
  with f n show ?thesis by simp
qed

text \<open>
  C6: when the expression compiles, the reported rows are, in the order of the selection,
  one row for each selected name that is in the method set, computed with the method of
  that name; a selected name that is not in the method set gives no row.
\<close>

theorem one_result_per_known_method:
  assumes "parseFunction lib (functionInput st) st = (Some func, st1)"
  shows "map result_method (results (calculateDerivatives lib st)) =
           filter (\<lambda>n. n \<in> name ` set methods) (selectedMethods st)
         \<and> results (calculateDerivatives lib st) =
           map (\<lambda>n. derivative_row func (getAnalyticalDerivative lib (functionInput st))
                      (evaluationPoint st) (stepSize st) n
                      (the (find (\<lambda>m. name m = n) methods)))
             (filter (\<lambda>n. n \<in> name ` set methods) (selectedMethods st))"
  by (simp add: results_calculateDerivatives [OF assms] derivative_row_def Let_def comp_def)

text \<open>A selection with an unknown name between two known ones.\<close>

theorem one_result_per_known_method_witness:
  "parseFunction sample_library
     (functionInput (sample_state ''x^2'' (Fin 1) (Fin 0.1)
        [''Central Difference'', ''Richardson'', ''Forward Difference'']))
     (sample_state ''x^2'' (Fin 1) (Fin 0.1)
        [''Central Difference'', ''Richardson'', ''Forward Difference'']) =
     (Some (guarded_evaluate sample_library ''x^2''),
      sample_state ''x^2'' (Fin 1) (Fin 0.1)
        [''Central Difference'', ''Richardson'', ''Forward Difference''])
   \<and> map result_method (results (calculateDerivatives sample_library
        (sample_state ''x^2'' (Fin 1) (Fin 0.1)
           [''Central Difference'', ''Richardson'', ''Forward Difference'']))) =
       [''Central Difference'', ''Forward Difference'']"
proof -
  let ?st = "sample_state ''x^2'' (Fin 1) (Fin 0.1)
               [''Central Difference'', ''Richardson'', ''Forward Difference'']"
  have p: "parseFunction sample_library (functionInput ?st) ?st =
             (Some (guarded_evaluate sample_library ''x^2''), ?st)"
    by (simp add: sample_state_fields sample_parseFunction)
  from one_result_per_known_method [OF p, THEN conjunct1] p show ?thesis
    by (simp add: sample_state_fields known_names)
qed

text \<open>
  C7: when the expression compiles but differentiating it, or compiling its derivative,
  throws, \<open>getAnalyticalDerivative\<close> gives \<open>null\<close>, every reported row has its analytical
  value, absolute error and relative error unavailable together, and the numerical
  estimates are still those of the selected methods.
\<close>

theorem no_derivative_degrades:
  assumes "parse lib (functionInput st) = Inr expr"
    and "compile lib expr = Inr compiled"
    and "derivative lib expr = Inl e
         \<or> (derivative lib expr = Inr d \<and> compile lib d = Inl e)"
  shows "getAnalyticalDerivative lib (functionInput st) = None
         \<and> (\<forall>r \<in> set (results (calculateDerivatives lib st)).
              analytical r = None \<and> absoluteError r = None \<and> relativeError r = None)
         \<and> map numerical (results (calculateDerivatives lib st)) =
             map (\<lambda>n. calculate (the (find (\<lambda>m. name m = n) methods))
                        (guarded_evaluate lib compiled) (evaluationPoint st) (stepSize st))
               (filter (\<lambda>n. n \<in> name ` set methods) (selectedMethods st))"
proof -
  have d: "getAnalyticalDerivative lib (functionInput st) = None"
    using assms by (auto simp: getAnalyticalDerivative_def)
  have p: "parseFunction lib (functionInput st) st = (Some (guarded_evaluate lib compiled), st)"
    using assms by (simp add: parseFunction_succeeds)
  show ?thesis
    by (auto simp: d results_calculateDerivatives [OF p] derivative_row_def Let_def)
qed

text \<open>
  \<open>floor(x)\<close> has no derivative in the sample library; its backward difference at 1 with
  step 0.5 is 2.
\<close>

theorem no_derivative_degrades_witness:
  "parse sample_library
     (functionInput (sample_state ''floor(x)'' (Fin 1) (Fin 0.5) [''Backward Difference''])) =
     Inr ''floor(x)''
   \<and> compile sample_library ''floor(x)'' = Inr ''floor(x)''
   \<and> derivative sample_library ''floor(x)'' = Inl ''not supported by derivative''
   \<and> getAnalyticalDerivative sample_library ''floor(x)'' = None
   \<and> map numerical (results (calculateDerivatives sample_library
        (sample_state ''floor(x)'' (Fin 1) (Fin 0.5) [''Backward Difference'']))) = [Fin 2]
   \<and> map analytical (results (calculateDerivatives sample_library
        (sample_state ''floor(x)'' (Fin 1) (Fin 0.5) [''Backward Difference'']))) = [None]
   \<and> map absoluteError (results (calculateDerivatives sample_library
        (sample_state ''floor(x)'' (Fin 1) (Fin 0.5) [''Backward Difference'']))) = [None]
   \<and> map relativeError (results (calculateDerivatives sample_library
        (sample_state ''floor(x)'' (Fin 1) (Fin 0.5) [''Backward Difference'']))) = [None]"
proof -
  let ?st = "sample_state ''floor(x)'' (Fin 1) (Fin 0.5) [''Backward Difference'']"
  have a: "parse sample_library (functionInput ?st) = Inr ''floor(x)''"
    by (simp add: sample_state_fields sample_parse)
  have b: "compile sample_library ''floor(x)'' = Inr ''floor(x)''"
    by (simp add: sample_compile)
  have c: "derivative sample_library ''floor(x)'' = Inl ''not supported by derivative''"
    by (simp add: sample_derivative)
  then have c': "derivative sample_library ''floor(x)'' = Inl ''not supported by derivative''
      \<or> (derivative sample_library ''floor(x)'' = Inr undefined
           \<and> compile sample_library undefined = Inl ''not supported by derivative'')"
    by simp
  note w = no_derivative_degrades [OF a b c']
  from w have d: "getAnalyticalDerivative sample_library ''floor(x)'' = None"
    by (simp add: sample_state_fields)
  from w have n: "map numerical (results (calculateDerivatives sample_library ?st)) = [Fin 2]"
    by (simp add: sample_state_fields known_names find_methods_cases calculate_simps
          sample_evaluate num_sub_def)
  then obtain r where r: "results (calculateDerivatives sample_library ?st) = [r]"
    by (auto simp: map_eq_Cons_conv)
  with w have "analytical r = None \<and> absoluteError r = None \<and> relativeError r = None"
    by simp
  with r n a b c d show ?thesis
    by simp
qed

text \<open>
  C8: when the expression parses and compiles, \<open>parseFunction\<close> gives a function that has
  a value at every input: the value of the evaluation where it returns, and \<open>NaN\<close> where
  it throws.
\<close>

theorem compiled_function_total:
  assumes "parse lib input = Inr expr" and "compile lib expr = Inr compiled"
  shows "\<exists>func. parseFunction lib input st = (Some func, st)
           \<and> (\<forall>x. func x = (case evaluate lib compiled x of Inl e \<Rightarrow> NaN | Inr v \<Rightarrow> v))"
  using assms by (simp add: parseFunction_def guarded_evaluate_def)

text \<open>Evaluating \<open>x * y\<close> throws at 3; the compiled function gives \<open>NaN\<close> there.\<close>

theorem compiled_function_total_witness:
  "parse sample_library ''x * y'' = Inr ''x * y''
   \<and> compile sample_library ''x * y'' = Inr ''x * y''
   \<and> evaluate sample_library ''x * y'' (Fin 3) = Inl ''Undefined symbol y''
   \<and> (\<exists>func. parseFunction sample_library ''x * y'' stale_state = (Some func, stale_state)
         \<and> func (Fin 3) = NaN)"
proof -
  have a: "parse sample_library ''x * y'' = Inr ''x * y''"
    by (simp add: sample_parse)
  have b: "compile sample_library ''x * y'' = Inr ''x * y''"
    by (simp add: sample_compile)
  have c: "evaluate sample_library ''x * y'' (Fin 3) = Inl ''Undefined symbol y''"
    by (simp add: sample_library_def)
  from compiled_function_total [OF a b, of stale_state] a b c show ?thesis
    by auto
qed

text \<open>
  C10: when the expression and its derivative compile and the derivative evaluates to
  \<open>NaN\<close> at the evaluation point, every reported row has \<open>NaN\<close> as its analytical value,
  absolute error and relative error; none of the three is marked unavailable.
\<close>

theorem nan_reference_is_reported:
  assumes "parseFunction lib (functionInput st) st = (Some func, st1)"
    and "getAnalyticalDerivative lib (functionInput st) = Some d"
    and "d (evaluationPoint st) = NaN"
  shows "\<forall>r \<in> set (results (calculateDerivatives lib st)).
           analytical r = Some NaN \<and> absoluteError r = Some NaN
           \<and> relativeError r = Some NaN"
  using assms(2,3)
  by (auto simp: results_calculateDerivatives [OF assms(1)] derivative_row_def Let_def
        strict_eq_def)

text \<open>The derivative of \<open>x * y\<close> is \<open>y\<close>, whose evaluation throws at every point.\<close>

theorem nan_reference_is_reported_witness:
  "parseFunction sample_library
     (functionInput (sample_state ''x * y'' (Fin 1) (Fin 0.1) [''Central Difference'']))
     (sample_state ''x * y'' (Fin 1) (Fin 0.1) [''Central Difference'']) =
     (Some (guarded_evaluate sample_library ''x * y''),
      sample_state ''x * y'' (Fin 1) (Fin 0.1) [''Central Difference''])
   \<and> getAnalyticalDerivative sample_library ''x * y'' =
       Some (guarded_evaluate sample_library ''y'')
   \<and> guarded_evaluate sample_library ''y'' (Fin 1) = NaN
   \<and> map result_method (results (calculateDerivatives sample_library
        (sample_state ''x * y'' (Fin 1) (Fin 0.1) [''Central Difference'']))) =
       [''Central Difference'']
   \<and> map analytical (results (calculateDerivatives sample_library
        (sample_state ''x * y'' (Fin 1) (Fin 0.1) [''Central Difference'']))) = [Some NaN]
   \<and> map absoluteError (results (calculateDerivatives sample_library
        (sample_state ''x * y'' (Fin 1) (Fin 0.1) [''Central Difference'']))) = [Some NaN]
   \<and> map relativeError (results (calculateDerivatives sample_library
        (sample_state ''x * y'' (Fin 1) (Fin 0.1) [''Central Difference'']))) = [Some NaN]"
proof -
  let ?st = "sample_state ''x * y'' (Fin 1) (Fin 0.1) [''Central Difference'']"
  have p: "parseFunction sample_library (functionInput ?st) ?st =
             (Some (guarded_evaluate sample_library ''x * y''), ?st)"
    by (simp add: sample_state_fields sample_parseFunction)
  have d: "getAnalyticalDerivative sample_library (functionInput ?st) =
             Some (guarded_evaluate sample_library ''y'')"
    by (simp add: sample_state_fields sample_getAnalyticalDerivative)
  have n: "guarded_evaluate sample_library ''y'' (evaluationPoint ?st) = NaN"
    by (simp add: sample_evaluate)
  have m: "map result_method (results (calculateDerivatives sample_library ?st)) =
             [''Central Difference'']"
    by (simp add: results_calculateDerivatives [OF p] sample_state_fields known_names
          derivative_row_def Let_def)
  then obtain r where r: "results (calculateDerivatives sample_library ?st) = [r]"
    by (auto simp: map_eq_Cons_conv)
  with nan_reference_is_reported [OF p d n]
  have "analytical r = Some NaN \<and> absoluteError r = Some NaN \<and> relativeError r = Some NaN"
    by simp
  with r p d n m show ?thesis
    by (simp add: sample_state_fields)
qed

section \<open>The convergence sweep\<close>

text \<open>
  C4: there are exactly twenty step sizes, the \<open>i\<close>-th being 10 to the power
  \<open>-4 + i * 0.2\<close> for \<open>i\<close> from 0 to 19; when the expression and its derivative compile,
  the sweep stores, in the order of the selection, for each selected method of the method
  set the pairs of a step size and the absolute error \<open>|numerical - analytical|\<close> at the
  evaluation point, one pair per step size in the order of the step sizes.
\<close>

theorem sweep_series:
  assumes "parseFunction lib (functionInput st) st = (Some func, st1)"
    and "getAnalyticalDerivative lib (functionInput st) = Some ad"
  shows "length stepSizes = 20
         \<and> stepSizes = map (\<lambda>i. Fin (10 powr (- 4 + real i * 0.2))) [0..<20]
         \<and> map (\<lambda>t. zip (trace_x t) (trace_y t)) (errorData (generateErrorData lib st)) =
             map (\<lambda>n. map (\<lambda>h. (h, Math_abs (num_sub
                                  (calculate (the (find (\<lambda>m. name m = n) methods)) func
                                     (evaluationPoint st) h)
                                  (ad (evaluationPoint st)))))
                        stepSizes)
               (filter (\<lambda>n. n \<in> name ` set methods) (selectedMethods st))"
  using stepSizes_eq
  by (simp add: errorData_generateErrorData [OF assms] error_trace_pairs comp_def
        length_stepSizes)

text \<open>
  The sweep of \<open>x^2\<close> with two selected methods stores two series; the step sizes at
  indices 0, 5 and 10 are a ten-thousandth, a thousandth and a hundredth.
\<close>

theorem sweep_series_witness:
  "parseFunction sample_library
     (functionInput (sample_state ''x^2'' (Fin 1) (Fin 0.1)
        [''Forward Difference'', ''Central Difference'']))
     (sample_state ''x^2'' (Fin 1) (Fin 0.1) [''Forward Difference'', ''Central Difference'']) =
     (Some (guarded_evaluate sample_library ''x^2''),
      sample_state ''x^2'' (Fin 1) (Fin 0.1) [''Forward Difference'', ''Central Difference''])
   \<and> getAnalyticalDerivative sample_library ''x^2'' =
       Some (guarded_evaluate sample_library ''2 * x'')
   \<and> length stepSizes = 20
   \<and> stepSizes ! 0 = Fin (1 / 10000) \<and> stepSizes ! 5 = Fin (1 / 1000)
   \<and> stepSizes ! 10 = Fin (1 / 100)
   \<and> length (errorData (generateErrorData sample_library
        (sample_state ''x^2'' (Fin 1) (Fin 0.1)
           [''Forward Difference'', ''Central Difference'']))) = 2"
proof -
  let ?st = "sample_state ''x^2'' (Fin 1) (Fin 0.1)
               [''Forward Difference'', ''Central Difference'']"
  have p: "parseFunction sample_library (functionInput ?st) ?st =
             (Some (guarded_evaluate sample_library ''x^2''), ?st)"
    by (simp add: sample_state_fields sample_parseFunction)
  have d: "getAnalyticalDerivative sample_library (functionInput ?st) =
             Some (guarded_evaluate sample_library ''2 * x'')"
    by (simp add: sample_state_fields sample_getAnalyticalDerivative)
  note w = sweep_series [OF p d]
  from w have s: "stepSizes = map (\<lambda>i. Fin (10 powr (- 4 + real i * 0.2))) [0..<20]"
    by simp
  have "stepSizes ! 0 = Fin (1 / 10000)" "stepSizes ! 5 = Fin (1 / 1000)"
    "stepSizes ! 10 = Fin (1 / 100)"
    by (simp_all add: s powr_examples del: upt_Suc)
  moreover have "length (errorData (generateErrorData sample_library ?st)) = 2"
  proof -
    have "length (errorData (generateErrorData sample_library ?st)) =
            length (map (\<lambda>t. zip (trace_x t) (trace_y t))
              (errorData (generateErrorData sample_library ?st)))"
      by simp
    also have "\<dots> = length (filter (\<lambda>n. n \<in> name ` set methods) (selectedMethods ?st))"
      by (simp only: w length_map)
    also have "\<dots> = 2"
      by (simp add: sample_state_fields known_names)
    finally show ?thesis .
  qed
  moreover have "length stepSizes = 20"
    using w by simp
  ultimately show ?thesis using p d
    by (simp add: sample_state_fields)
qed

text \<open>
  C5: when the expression does not compile or its derivative is unavailable, the sweep
  does nothing beyond what \<open>parseFunction\<close> did: it produces and stores no series, so the
  stored error data are what they were.
\<close>

theorem sweep_needs_both:
  assumes "fst (parseFunction lib (functionInput st) st) = None
           \<or> getAnalyticalDerivative lib (functionInput st) = None"
  shows "generateErrorData lib st = snd (parseFunction lib (functionInput st) st)
         \<and> errorData (generateErrorData lib st) = errorData st"
  using assms
  by (cases "parseFunction lib (functionInput st) st")
     (auto simp: generateErrorData_def parseFunction_def split: sum.splits option.splits)

text \<open>\<open>floor(x)\<close> compiles but has no derivative: the sweep leaves the state as it is.\<close>

theorem sweep_needs_both_witness:
  "getAnalyticalDerivative sample_library
     (functionInput (sample_state ''floor(x)'' (Fin 1) (Fin 0.5) [''Central Difference''])) = None
   \<and> generateErrorData sample_library
       (sample_state ''floor(x)'' (Fin 1) (Fin 0.5) [''Central Difference'']) =
       sample_state ''floor(x)'' (Fin 1) (Fin 0.5) [''Central Difference'']
   \<and> errorData (generateErrorData sample_library
       (sample_state ''floor(x)'' (Fin 1) (Fin 0.5) [''Central Difference''])) = []"
proof -
  let ?st = "sample_state ''floor(x)'' (Fin 1) (Fin 0.5) [''Central Difference'']"
  have d: "getAnalyticalDerivative sample_library (functionInput ?st) = None"
    by (simp add: sample_state_fields sample_getAnalyticalDerivative)
  then have "fst (parseFunction sample_library (functionInput ?st) ?st) = None
      \<or> getAnalyticalDerivative sample_library (functionInput ?st) = None"
    by simp
  from sweep_needs_both [OF this] d show ?thesis
    by (simp add: sample_state_fields sample_parseFunction)
qed

end
